theory Spec2Isabelle
  imports Complex_Main
begin

section \<open>MissingTargetCost: a cost that masks missing targets\<close>

text \<open>
  A shallow embedding of \<^verbatim>\<open>pylearn2/costs/mlp/missing_target_cost.py\<close>.
  The class \<^verbatim>\<open>MissingTargetCost\<close> has a constructor and two methods,
  \<^verbatim>\<open>expr\<close> (the spec's \<open>compute_loss\<close>) and \<^verbatim>\<open>get_data_specs\<close>
  (the spec's \<open>data_spec\<close>). Both methods call into a model object they are handed;
  the model is a record of its methods, every method may raise and may change the
  store: the model's own variables and the dictionaries on the heap. The tensor
  expression that \<^verbatim>\<open>expr\<close> builds is read as the value it denotes for the tensors
  of the batch.
\<close>

subsection \<open>Floating-point entries\<close>

text \<open>
  An entry of a tensor is a finite number, an infinity or a nan. Finite numbers are
  reals: rounding, overflow and the sign of zero are left out; the non-finite values
  and their arithmetic are kept, since a product with zero tells them apart.
\<close>

datatype floatX = Finite real | PosInf | NegInf | NaN

text \<open>The product: nan is absorbing, and zero times an infinity is nan.\<close>

fun fmul :: "floatX \<Rightarrow> floatX \<Rightarrow> floatX" where
  "fmul NaN y = NaN"
| "fmul x NaN = NaN"
| "fmul (Finite a) (Finite b) = Finite (a * b)"
| "fmul (Finite a) PosInf = (if a = 0 then NaN else if 0 < a then PosInf else NegInf)"
| "fmul (Finite a) NegInf = (if a = 0 then NaN else if 0 < a then NegInf else PosInf)"
| "fmul PosInf (Finite b) = (if b = 0 then NaN else if 0 < b then PosInf else NegInf)"
| "fmul NegInf (Finite b) = (if b = 0 then NaN else if 0 < b then NegInf else PosInf)"
| "fmul PosInf PosInf = PosInf"
| "fmul PosInf NegInf = NegInf"
| "fmul NegInf PosInf = NegInf"
| "fmul NegInf NegInf = PosInf"

text \<open>The sum: nan is absorbing, and the sum of the two infinities is nan.\<close>

fun fadd :: "floatX \<Rightarrow> floatX \<Rightarrow> floatX" where
  "fadd NaN y = NaN"
| "fadd x NaN = NaN"
| "fadd (Finite a) (Finite b) = Finite (a + b)"
| "fadd PosInf NegInf = NaN"
| "fadd NegInf PosInf = NaN"
| "fadd PosInf y = PosInf"
| "fadd x PosInf = PosInf"
| "fadd NegInf y = NegInf"
| "fadd x NegInf = NegInf"

text \<open>The comparison \<^verbatim>\<open>!=\<close>: a nan differs from everything, itself included.\<close>

fun fneq :: "floatX \<Rightarrow> floatX \<Rightarrow> bool" where
  "fneq NaN y = True"
| "fneq x NaN = True"
| "fneq x y = (x \<noteq> y)"

subsection \<open>Tensors\<close>

text \<open>
  A tensor is its shape and its entries in row-major order; it is well formed when it
  has as many entries as its shape says.
\<close>

record ndarray =
  shape :: "nat list"
  elems :: "floatX list"

definition well_formed :: "ndarray \<Rightarrow> bool" where
  "well_formed A = (length (elems A) = prod_list (shape A))"

text \<open>Exceptions are values. \<open>DataSpecMismatch\<close> is what \<^verbatim>\<open>Space.validate\<close>
  raises; \<open>UnpackError\<close> is the failure of the tuple assignment \<^verbatim>\<open>(X, Y) = data\<close>;
  \<open>ShapeError\<close> is an elementwise operation on tensors whose shapes cannot be
  broadcast together; \<open>Raised\<close> is any exception of the model's own.\<close>

datatype exn = DataSpecMismatch | UnpackError | ShapeError | Raised string

text \<open>\<^verbatim>\<open>T.neq(Y, c)\<close>: one where the entry differs from \<open>c\<close>, zero where it equals it.\<close>

definition neq :: "ndarray \<Rightarrow> floatX \<Rightarrow> ndarray" where
  "neq Y c =
     \<lparr>shape = shape Y, elems = map (\<lambda>y. if fneq y c then Finite 1 else Finite 0) (elems Y)\<rparr>"

text \<open>
  Broadcasting. The two shapes are aligned at their last dimension; here they are
  given reversed, last dimension first. Two dimensions go together when they are
  equal or one of them is 1, and a missing dimension counts as 1.
\<close>

fun bshape :: "nat list \<Rightarrow> nat list \<Rightarrow> nat list option" where
  "bshape [] kb = Some kb"
| "bshape ka [] = Some ka"
| "bshape (n # ka) (k # kb) =
     (if n = k \<or> k = 1 then map_option ((#) n) (bshape ka kb)
      else if n = 1 then map_option ((#) k) (bshape ka kb)
      else None)"

text \<open>The position in an operand of reversed shape \<open>ka\<close> that is read for position
  \<open>j\<close> of the result of reversed shape \<open>kr\<close>: along a dimension of size 1, and along
  a missing one, the operand is repeated.\<close>

fun src :: "nat list \<Rightarrow> nat list \<Rightarrow> nat \<Rightarrow> nat" where
  "src (n # ka) (r # kr) j = (if n = 1 then 0 else j mod r) + n * src ka kr (j div r)"
| "src ka kr j = 0"

text \<open>An elementwise binary operation. Operands whose shapes do not go together are
  an error of the evaluation.\<close>

definition broadcast ::
  "(floatX \<Rightarrow> floatX \<Rightarrow> floatX) \<Rightarrow> ndarray \<Rightarrow> ndarray \<Rightarrow> exn + ndarray" where
  "broadcast f A B =
     (case bshape (rev (shape A)) (rev (shape B)) of
        None \<Rightarrow> Inl ShapeError
      | Some kr \<Rightarrow>
          if well_formed A \<and> well_formed B
          then Inr \<lparr>shape = rev kr,
                    elems = map (\<lambda>j. f (elems A ! src (rev (shape A)) kr j)
                                        (elems B ! src (rev (shape B)) kr j))
                              [0..<prod_list kr]\<rparr>
          else Inl ShapeError)"

text \<open>The elementwise product \<^verbatim>\<open>A * B\<close>.\<close>

definition mul :: "ndarray \<Rightarrow> ndarray \<Rightarrow> exn + ndarray" where
  "mul A B = broadcast fmul A B"

subsection \<open>Spaces\<close>

text \<open>
  Modelled from the spec: \<^verbatim>\<open>pylearn2.space\<close> (\<^verbatim>\<open>Space\<close>, \<^verbatim>\<open>CompositeSpace\<close> and
  their \<^verbatim>\<open>validate\<close>) is imported by the source file and is not part of it. A space is
  what accepts or rejects a batch: an elementary space is given by the tensors it
  accepts, a composite space accepts a tuple that has one accepted component for each
  of its member spaces, in order. A batch is a tuple of tensors, written as a list.
\<close>

datatype space = Space "ndarray \<Rightarrow> bool" | CompositeSpace "space list"

fun validate_component :: "space \<Rightarrow> ndarray \<Rightarrow> bool" where
  "validate_component (Space accepts) a = accepts a"
| "validate_component (CompositeSpace cs) a = False"

fun validate :: "space \<Rightarrow> ndarray list \<Rightarrow> bool" where
  "validate (CompositeSpace cs) data =
     (length data = length cs \<and> list_all2 validate_component cs data)"
| "validate (Space accepts) data = False"

subsection \<open>The store, the cost object and the model\<close>

text \<open>Keyword arguments: a dictionary from names to values, in insertion order.\<close>

datatype kwval = Num real | Flag bool | PerLayer "(string \<times> real) list"

type_synonym kwargs = "(string \<times> kwval) list"

text \<open>
  Dictionaries are objects: a variable holds the address of a dictionary, and whoever
  holds the address can change the dictionary. The heap gives the content of the
  dictionary at each address. The store is what a method of the model can read and
  write: the model's own variables and the heap.
\<close>

type_synonym addr = nat

record 's store =
  vars :: 's
  heap :: "addr \<Rightarrow> kwargs"

text \<open>\<^verbatim>\<open>__init__\<close> copies its one argument into the instance dictionary and removes
  the entry for \<^verbatim>\<open>self\<close>: the instance has the single attribute \<^verbatim>\<open>dropout_args\<close>.
  It is \<open>None\<close> by default, and otherwise the address of the caller's dictionary:
  the dictionary is not copied.\<close>

record cost =
  dropout_args :: "addr option"

definition init :: "addr option \<Rightarrow> cost" where
  "init args = \<lparr>dropout_args = args\<rparr>"

text \<open>The model: the methods that the cost calls, each a function of the store that
  returns a value or an exception, and the next store.
  \<open>cost_matrix\<close> stands for \<^verbatim>\<open>model.layers[-1].cost_matrix\<close>.
  The argument of \<open>cost_from_cost_matrix\<close> is the masked product as an expression:
  its value, or the error of its evaluation, which the reduction meets only if it
  evaluates its argument.\<close>

record 's model =
  get_input_space :: "'s store \<Rightarrow> (exn + space) \<times> 's store"
  get_output_space :: "'s store \<Rightarrow> (exn + space) \<times> 's store"
  get_input_source :: "'s store \<Rightarrow> (exn + string) \<times> 's store"
  get_target_source :: "'s store \<Rightarrow> (exn + string) \<times> 's store"
  fprop :: "ndarray \<Rightarrow> 's store \<Rightarrow> (exn + ndarray) \<times> 's store"
  dropout_fprop :: "ndarray \<Rightarrow> kwargs \<Rightarrow> 's store \<Rightarrow> (exn + ndarray) \<times> 's store"
  cost_matrix :: "ndarray \<Rightarrow> ndarray \<Rightarrow> 's store \<Rightarrow> (exn + ndarray) \<times> 's store"
  cost_from_cost_matrix :: "exn + ndarray \<Rightarrow> 's store \<Rightarrow> (exn + floatX) \<times> 's store"

text \<open>Every call of a method of the model is logged with its arguments.\<close>

datatype event =
    GetInputSpace
  | GetOutputSpace
  | GetInputSource
  | GetTargetSource
  | Fprop ndarray
  | DropoutFprop ndarray kwargs
  | CostMatrix ndarray ndarray
  | CostFromCostMatrix "exn + ndarray"

text \<open>The world: the cost object, the store and the log of calls.\<close>

record 's world =
  self :: cost
  mstate :: "'s store"
  calls :: "event list"

type_synonym ('s, 'a) run = "'s world \<Rightarrow> (exn + 'a) \<times> 's world"

definition return :: "'a \<Rightarrow> ('s, 'a) run" where
  "return a w = (Inr a, w)"

definition raise :: "exn \<Rightarrow> ('s, 'a) run" where
  "raise e w = (Inl e, w)"

text \<open>Sequencing: an exception ends the run, nothing catches it.\<close>

definition bind :: "('s, 'a) run \<Rightarrow> ('a \<Rightarrow> ('s, 'b) run) \<Rightarrow> ('s, 'b) run" where
  "bind r f w = (case r w of (Inl e, w') \<Rightarrow> (Inl e, w') | (Inr a, w') \<Rightarrow> f a w')"

text \<open>A call of a method of the model: it runs on the store and is logged.\<close>

definition call :: "event \<Rightarrow> ('s store \<Rightarrow> (exn + 'a) \<times> 's store) \<Rightarrow> ('s, 'a) run" where
  "call ev f w =
     (case f (mstate w) of (r, s') \<Rightarrow> (r, w\<lparr>mstate := s', calls := calls w @ [ev]\<rparr>))"

subsection \<open>The methods\<close>

text \<open>\<^verbatim>\<open>get_data_specs\<close>: the composite of the model's input and output space, and
  the pair of its input and target source.\<close>

definition get_data_specs :: "'s model \<Rightarrow> ('s, space \<times> string \<times> string) run" where
  "get_data_specs m =
     bind (call GetInputSpace (get_input_space m)) (\<lambda>ispace.
     bind (call GetOutputSpace (get_output_space m)) (\<lambda>ospace.
     bind (call GetInputSource (get_input_source m)) (\<lambda>isource.
     bind (call GetTargetSource (get_target_source m)) (\<lambda>tsource.
     return (CompositeSpace [ispace, ospace], (isource, tsource))))))"

text \<open>Python's truth value of \<^verbatim>\<open>self.dropout_args\<close>: \<open>None\<close> is false, and a
  dictionary is false when it is empty at the moment of the test.\<close>

fun truthy :: "(addr \<Rightarrow> kwargs) \<Rightarrow> addr option \<Rightarrow> bool" where
  "truthy h None = False"
| "truthy h (Some a) = (h a \<noteq> [])"

text \<open>Lines 23 to 26 of \<^verbatim>\<open>expr\<close>, the statement that assigns \<^verbatim>\<open>Y_hat\<close>:
  the dropout forward pass with the keyword arguments read from the stored dictionary
  when this is true, the standard forward pass otherwise.\<close>

definition compute_Y_hat :: "'s model \<Rightarrow> ndarray \<Rightarrow> ('s, ndarray) run" where
  "compute_Y_hat m X w =
     (if truthy (heap (mstate w)) (dropout_args (self w))
      then call (DropoutFprop X (heap (mstate w) (the (dropout_args (self w)))))
             (dropout_fprop m X (heap (mstate w) (the (dropout_args (self w))))) w
      else call (Fprop X) (fprop m X) w)"

text \<open>\<^verbatim>\<open>expr\<close>, statement by statement. The product of line 28 is an expression
  that line 29 hands to the model.\<close>

definition expr :: "'s model \<Rightarrow> ndarray list \<Rightarrow> ('s, floatX) run" where
  "expr m data =
     bind (get_data_specs m) (\<lambda>(space, sources).
     if \<not> validate space data then raise DataSpecMismatch
     else case data of
       [X, Y] \<Rightarrow>
         bind (compute_Y_hat m X) (\<lambda>Y_hat.
         bind (call (CostMatrix Y Y_hat) (cost_matrix m Y Y_hat)) (\<lambda>costMatrix.
         call (CostFromCostMatrix (mul costMatrix (neq Y (Finite (- 1)))))
           (cost_from_cost_matrix m (mul costMatrix (neq Y (Finite (- 1)))))))
     | _ \<Rightarrow> raise UnpackError)"

subsection \<open>Test doubles\<close>

text \<open>The space of the batches of vectors of dimension \<open>d\<close>: matrices with \<open>d\<close> columns.\<close>

definition vector_space :: "nat \<Rightarrow> space" where
  "vector_space d = Space (\<lambda>a. case shape a of [n, k] \<Rightarrow> k = d | _ \<Rightarrow> False)"

text \<open>The sum of the entries of a tensor, from the first to the last.\<close>

definition total :: "ndarray \<Rightarrow> floatX" where
  "total A = fold (\<lambda>x acc. fadd acc x) (elems A) (Finite 0)"

text \<open>A model whose variable counts the calls it has received and that leaves the
  heap alone. Its forward pass returns a fixed prediction, its dropout forward pass the
  double of it; the cost matrix of its last layer is the prediction itself and its
  reduction is the sum of the entries, which evaluates the product.\<close>

definition tick :: "nat store \<Rightarrow> nat store" where
  "tick s = s\<lparr>vars := Suc (vars s)\<rparr>"

definition stub_Y_hat :: ndarray where
  "stub_Y_hat = \<lparr>shape = [2, 2], elems = [Finite 0.5, Finite 0.3, Finite 0.7, Finite 0.2]\<rparr>"

definition stub_model :: "nat model" where
  "stub_model = \<lparr>
     get_input_space = (\<lambda>s. (Inr (vector_space 3), tick s)),
     get_output_space = (\<lambda>s. (Inr (vector_space 2), tick s)),
     get_input_source = (\<lambda>s. (Inr ''features'', tick s)),
     get_target_source = (\<lambda>s. (Inr ''targets'', tick s)),
     fprop = (\<lambda>X s. (Inr stub_Y_hat, tick s)),
     dropout_fprop = (\<lambda>X kw s.
       (Inr (stub_Y_hat\<lparr>elems := map (fmul (Finite 2)) (elems stub_Y_hat)\<rparr>), tick s)),
     cost_matrix = (\<lambda>Y Y_hat s. (Inr Y_hat, tick s)),
     cost_from_cost_matrix = (\<lambda>P s.
       (case P of Inl e \<Rightarrow> Inl e | Inr A \<Rightarrow> Inr (total A), tick s))\<rparr>"

text \<open>The same model with a forward pass and a last layer that raise.\<close>

definition failing_fprop_model :: "nat model" where
  "failing_fprop_model = stub_model\<lparr>
     fprop := (\<lambda>X s. (Inl (Raised ''fprop failed''), tick s)),
     dropout_fprop := (\<lambda>X kw s. (Inl (Raised ''dropout_fprop failed''), tick s))\<rparr>"

definition failing_cost_model :: "nat model" where
  "failing_cost_model = stub_model\<lparr>
     cost_matrix := (\<lambda>Y Y_hat s. (Inl (Raised ''cost_matrix failed''), tick s))\<rparr>"

text \<open>The same model with a last layer whose cost is infinite at one position, as the
  logarithm of a zero probability is.\<close>

definition inf_cost :: ndarray where
  "inf_cost = \<lparr>shape = [2, 2], elems = [Finite 0.5, PosInf, Finite 0.7, Finite 0.2]\<rparr>"

definition inf_cost_model :: "nat model" where
  "inf_cost_model = stub_model\<lparr>cost_matrix := (\<lambda>Y Y_hat s. (Inr inf_cost, tick s))\<rparr>"



text \<open>The same model with a dropout forward pass that empties the dictionary at
  address 0, which it can reach when its caller has kept the address.\<close>

definition clearing_model :: "nat model" where
  "clearing_model = stub_model\<lparr>
     dropout_fprop := (\<lambda>X kw s. (Inr stub_Y_hat, (tick s)\<lparr>heap := (heap s)(0 := [])\<rparr>))\<rparr>"

text \<open>A batch of two examples: inputs of dimension 3, targets of dimension 2 with two
  missing entries.\<close>

definition X0 :: ndarray where
  "X0 = \<lparr>shape = [2, 3],
          elems = [Finite 1, Finite 2, Finite 3, Finite 4, Finite 5, Finite 6]\<rparr>"

definition Y0 :: ndarray where
  "Y0 = \<lparr>shape = [2, 2], elems = [Finite 1, Finite (- 1), Finite (- 1), Finite 2]\<rparr>"


definition Y_none :: ndarray where
  "Y_none = \<lparr>shape = [2, 2],
              elems = [Finite (- 1), Finite (- 1), Finite (- 1), Finite (- 1)]\<rparr>"

text \<open>Heaps: every dictionary empty, and a dropout configuration at address 0.\<close>

definition empty_heap :: "addr \<Rightarrow> kwargs" where
  "empty_heap = (\<lambda>a. [])"

definition config_heap :: "addr \<Rightarrow> kwargs" where
  "config_heap = empty_heap(0 := [(''default_input_include_prob'', Num 0.8)])"

text \<open>A world at its start: a cost object built by the constructor, the model's
  counter at zero, no call logged.\<close>

definition world0 :: "addr option \<Rightarrow> (addr \<Rightarrow> kwargs) \<Rightarrow> nat world" where
  "world0 args h = \<lparr>self = init args, mstate = \<lparr>vars = 0, heap = h\<rparr>, calls = []\<rparr>"

subsection \<open>Notions used by the statements\<close>

text \<open>The calls that are a forward pass of the model, standard or with dropout.\<close>

fun is_forward :: "event \<Rightarrow> bool" where
  "is_forward (Fprop X) = True"
| "is_forward (DropoutFprop X kw) = True"
| "is_forward ev = False"

text \<open>The dropout configuration of the cost object as it is in a world: none, or the
  content of the dictionary that \<^verbatim>\<open>self.dropout_args\<close> refers to.\<close>

definition config :: "'s world \<Rightarrow> kwargs option" where
  "config w = map_option (heap (mstate w)) (dropout_args (self w))"

text \<open>The call that the assignment of \<^verbatim>\<open>Y_hat\<close> makes for a given configuration.\<close>

definition forward_event :: "kwargs option \<Rightarrow> ndarray \<Rightarrow> event" where
  "forward_event c X =
     (case c of
        None \<Rightarrow> Fprop X
      | Some kw \<Rightarrow> if kw = [] then Fprop X else DropoutFprop X kw)"

text \<open>A function of the store leaves the dictionary at an address as it is.\<close>

definition leaves :: "addr \<Rightarrow> ('s store \<Rightarrow> 'a \<times> 's store) \<Rightarrow> bool" where
  "leaves a f = (\<forall>s. heap (snd (f s)) a = heap s a)"

text \<open>The spec's fixed dropout configuration: no method of the model changes the
  dictionary that the cost object refers to.\<close>

definition leaves_config :: "'s model \<Rightarrow> cost \<Rightarrow> bool" where
  "leaves_config m c =
     (case dropout_args c of
        None \<Rightarrow> True
      | Some a \<Rightarrow>
          leaves a (get_input_space m) \<and> leaves a (get_output_space m) \<and>
          leaves a (get_input_source m) \<and> leaves a (get_target_source m) \<and>
          (\<forall>X. leaves a (fprop m X)) \<and> (\<forall>X kw. leaves a (dropout_fprop m X kw)) \<and>
          (\<forall>Y Y_hat. leaves a (cost_matrix m Y Y_hat)) \<and>
          (\<forall>P. leaves a (cost_from_cost_matrix m P)))"

text \<open>A run keeps the cost object \<open>c\<close> and its configuration.\<close>

definition keeps :: "cost \<Rightarrow> ('s, 'a) run \<Rightarrow> bool" where
  "keeps c r =
     (\<forall>v. self v = c \<longrightarrow> self (snd (r v)) = c \<and> config (snd (r v)) = config v)"

text \<open>A run returns the same from any two worlds that hold the cost object \<open>c\<close> with
  the same configuration.\<close>

definition same_result :: "cost \<Rightarrow> ('s, 'a) run \<Rightarrow> bool" where
  "same_result c r =
     (\<forall>v v'. self v = c \<and> self v' = c \<and> config v = config v' \<longrightarrow> fst (r v) = fst (r v'))"

text \<open>The spec's zero matrix: the tensor of the shape of \<open>A\<close> whose entries are zero.\<close>

definition zero_matrix :: "ndarray \<Rightarrow> ndarray" where
  "zero_matrix A = \<lparr>shape = shape A, elems = replicate (length (elems A)) (Finite 0)\<rparr>"

text \<open>The spec's deterministic model: what a method returns or raises does not depend
  on the store (the store it leaves may).\<close>

definition deterministic :: "'s model \<Rightarrow> bool" where
  "deterministic m =
     ((\<forall>s s'. fst (get_input_space m s) = fst (get_input_space m s')) \<and>
      (\<forall>s s'. fst (get_output_space m s) = fst (get_output_space m s')) \<and>
      (\<forall>s s'. fst (get_input_source m s) = fst (get_input_source m s')) \<and>
      (\<forall>s s'. fst (get_target_source m s) = fst (get_target_source m s')) \<and>
      (\<forall>X s s'. fst (fprop m X s) = fst (fprop m X s')) \<and>
      (\<forall>X kw s s'. fst (dropout_fprop m X kw s) = fst (dropout_fprop m X kw s')) \<and>
      (\<forall>Y Y_hat s s'. fst (cost_matrix m Y Y_hat s) = fst (cost_matrix m Y Y_hat s')) \<and>
      (\<forall>P s s'. fst (cost_from_cost_matrix m P s) = fst (cost_from_cost_matrix m P s')))"

text \<open>The spec speaks of a batch that matches the data specification in its space and
  in its sources. \<^verbatim>\<open>expr\<close> receives the tuple of tensors only; a batch as its caller
  holds it is that tuple and the pair of sources it was drawn from, and it matches a
  data specification when the space accepts the tuple and the sources are the
  specification's.\<close>

record sourced_batch =
  components :: "ndarray list"
  drawn_from :: "string \<times> string"

definition matches_data_specs :: "space \<times> string \<times> string \<Rightarrow> sourced_batch \<Rightarrow> bool" where
  "matches_data_specs specs b =
     (validate (fst specs) (components b) \<and> drawn_from b = snd specs)"

text \<open>The batch \<open>[X0, Y0]\<close>, drawn from the two sources in the wrong order.\<close>

definition swapped_batch :: sourced_batch where
  "swapped_batch = \<lparr>components = [X0, Y0], drawn_from = (''targets'', ''features'')\<rparr>"

section \<open>Properties\<close>

subsection \<open>Sequencing and calls\<close>

lemma bind_Inr: "r w = (Inr a, w') \<Longrightarrow> bind r f w = f a w'"
  by (simp add: bind_def)

lemma bind_Inl: "r w = (Inl e, w') \<Longrightarrow> bind r f w = (Inl e, w')"
  by (simp add: bind_def)

lemma call_fst: "fst (call ev f w) = fst (f (mstate w))"
  by (simp add: call_def split: prod.splits)

lemma call_self: "self (snd (call ev f w)) = self w"
  by (simp add: call_def split: prod.splits)

text \<open>A run keeps the cost object when each of its two parts does.\<close>

lemma bind_self:
  assumes "\<And>v. self (snd (r v)) = self v" and "\<And>a v. self (snd (f a v)) = self v"
  shows "self (snd (bind r f w)) = self w"
proof (cases "r w")
  case (Pair x w')
  have w': "self w' = self w" using assms(1) [of w] Pair by simp
  show ?thesis
  proof (cases x)
    case (Inl e)
    then show ?thesis using Pair w' by (simp add: bind_def)
  next
    case (Inr a)
    then show ?thesis using Pair w' assms(2) [of a w'] by (simp add: bind_def)
  qed
qed

lemma get_data_specs_self: "self (snd (get_data_specs m w)) = self w"
  unfolding get_data_specs_def
  by (intro bind_self call_self) (simp add: return_def)

lemma compute_Y_hat_self: "self (snd (compute_Y_hat m X w)) = self w"
  by (simp add: compute_Y_hat_def call_self)

lemma expr_self: "self (snd (expr m data w)) = self w"
  unfolding expr_def
  apply (rule bind_self)
   apply (rule get_data_specs_self)
  apply (simp add: raise_def split: prod.splits list.splits)
  apply (intro conjI allI impI bind_self call_self compute_Y_hat_self)
  done

text \<open>What a successful \<^verbatim>\<open>get_data_specs\<close> leaves behind.\<close>

lemma get_data_specs_Inr:
  assumes "get_data_specs m w = (Inr (space, sources), w1)"
  shows "\<exists>ispace ospace. space = CompositeSpace [ispace, ospace]"
    and "calls w1 = calls w @ [GetInputSpace, GetOutputSpace, GetInputSource, GetTargetSource]"
    and "self w1 = self w"
  using assms
  by (auto simp: get_data_specs_def bind_def call_def return_def split: prod.splits sum.splits)

text \<open>A batch that the space of \<^verbatim>\<open>get_data_specs\<close> accepts is a pair: the tuple
  assignment of \<^verbatim>\<open>expr\<close> cannot fail after the validation.\<close>

lemma accepted_batch_is_pair:
  assumes "get_data_specs m w = (Inr (space, sources), w1)" and "validate space data"
  shows "\<exists>X Y. data = [X, Y]"
proof -
  obtain ispace ospace where "space = CompositeSpace [ispace, ospace]"
    using get_data_specs_Inr(1) [OF assms(1)] by blast
  then have "length data = 2"
    using assms(2) by simp
  then show ?thesis
    by (cases data rule: list.exhaust; simp) (metis length_0_conv length_Suc_conv)
qed

subsection \<open>The steps of \<^verbatim>\<open>expr\<close>\<close>

lemma expr_valid:
  assumes "get_data_specs m w = (Inr (space, sources), w1)" and "validate space [X, Y]"
  shows "expr m [X, Y] w =
     bind (compute_Y_hat m X) (\<lambda>Y_hat.
     bind (call (CostMatrix Y Y_hat) (cost_matrix m Y Y_hat)) (\<lambda>costMatrix.
     call (CostFromCostMatrix (mul costMatrix (neq Y (Finite (- 1)))))
       (cost_from_cost_matrix m (mul costMatrix (neq Y (Finite (- 1))))))) w1"
  using assms by (simp add: expr_def bind_Inr)


subsection \<open>Products with a mask\<close>

lemma bshape_same: "bshape k k = Some k"
  by (induction k) auto

lemma src_same: "j < prod_list k \<Longrightarrow> src k k j = j"
proof (induction k arbitrary: j)
  case Nil
  then show ?case by simp
next
  case (Cons n k)
  then have "j div n < prod_list k"
    by (simp add: less_mult_imp_div_less mult.commute)
  then have "src k k (j div n) = j div n"
    by (rule Cons.IH)
  then show ?case by simp
qed

text \<open>The position read in the second operand is one of its positions.\<close>

lemma src_less:
  assumes "bshape ka kb = Some kr" and "j < prod_list kr"
  shows "src kb kr j < prod_list kb"
  using assms
proof (induction ka kb arbitrary: kr j rule: bshape.induct)
  case (1 kb)
  then show ?case by (simp add: src_same)
next
  case (2 n ka)
  then show ?case by simp
next
  case (3 n ka k kb)
  from "3.prems"(1) obtain kr' r where kr: "kr = r # kr'" and b: "bshape ka kb = Some kr'"
    and r: "r = k \<or> k = 1"
    by (auto split: if_splits)
  from "3.prems"(2) kr have j: "j < r * prod_list kr'" by simp
  then have "j div r < prod_list kr'"
    by (simp add: less_mult_imp_div_less mult.commute)
  moreover have "bshape ka kb = Some kr'" by (rule b)
  ultimately have q: "src kb kr' (j div r) < prod_list kb"
    using "3.IH" "3.prems"(1) kr by (auto split: if_splits)
  have "0 < r" using j by (cases r) auto
  then have d: "(if k = 1 then 0 else j mod r) < k"
    using r by auto
  have "(if k = 1 then 0 else j mod r) + k * src kb kr' (j div r) < k * Suc (src kb kr' (j div r))"
    using d by simp
  also have "\<dots> \<le> k * prod_list kb"
    using q by (intro mult_le_mono2) simp
  finally show ?case using kr by simp
qed

text \<open>One is neutral for the product, whatever the other factor is.\<close>

lemma fmul_one: "fmul c (Finite 1) = c"
  by (cases c) simp_all

lemma fneq_finite: "fneq y (Finite c) = (y \<noteq> Finite c)"
  by (cases y) simp_all

text \<open>The entries of a product in which the first operand is not broadcast.\<close>

lemma broadcast_elems:
  assumes "bshape (rev (shape A)) (rev (shape B)) = Some (rev (shape A))"
    and "well_formed A" and "well_formed B"
  shows "broadcast f A B =
     Inr \<lparr>shape = shape A,
          elems = map (\<lambda>j. f (elems A ! j)
                             (elems B ! src (rev (shape B)) (rev (shape A)) j))
                    [0..<length (elems A)]\<rparr>"
  using assms by (simp add: broadcast_def well_formed_def src_same)


text \<open>Zero annihilates the finite numbers only.\<close>

lemma fmul_zero: "fmul c (Finite 0) = (case c of Finite a \<Rightarrow> Finite 0 | _ \<Rightarrow> NaN)"
  by (cases c) simp_all

text \<open>The entries of the masked cost matrix, when the cost matrix is not broadcast:
  the raw cost where the target is not \<open>c\<close>, and the raw cost times zero where it
  is.\<close>

lemma mul_neq_entries:
  assumes "bshape (rev (shape C)) (rev (shape Y)) = Some (rev (shape C))"
    and "well_formed C" and "well_formed Y"
  shows "\<exists>M. mul C (neq Y (Finite c)) = Inr M \<and> shape M = shape C
     \<and> length (elems M) = length (elems C)
     \<and> (\<forall>j<length (elems C). elems M ! j =
          (if elems Y ! src (rev (shape Y)) (rev (shape C)) j = Finite c
           then fmul (elems C ! j) (Finite 0) else elems C ! j))"
proof -
  let ?mask = "neq Y (Finite c)"
  let ?i = "src (rev (shape Y)) (rev (shape C))"
  have sh: "shape ?mask = shape Y" and wf: "well_formed ?mask"
    using assms(3) by (simp_all add: neq_def well_formed_def)
  have entry: "fmul (elems C ! j) (elems ?mask ! ?i j) =
      (if elems Y ! ?i j = Finite c then fmul (elems C ! j) (Finite 0) else elems C ! j)"
    if "j < length (elems C)" for j
  proof -
    have "j < prod_list (rev (shape C))"
      using that assms(2) by (simp add: well_formed_def)
    then have "?i j < prod_list (rev (shape Y))"
      using assms(1) by (rule src_less [rotated])
    then have "?i j < length (elems Y)"
      using assms(3) by (simp add: well_formed_def)
    then show ?thesis
      by (simp add: neq_def fneq_finite fmul_one)
  qed
  have "mul C ?mask =
     Inr \<lparr>shape = shape C,
          elems = map (\<lambda>j. fmul (elems C ! j) (elems ?mask ! ?i j)) [0..<length (elems C)]\<rparr>"
    using broadcast_elems [of C ?mask fmul] assms(1,2) sh wf by (simp add: mul_def)
  then show ?thesis
    using entry by simp
qed

subsection \<open>The log of calls\<close>

lemma compute_Y_hat_config:
  "compute_Y_hat m X w =
     (case config w of
        None \<Rightarrow> call (Fprop X) (fprop m X) w
      | Some kw \<Rightarrow>
          if kw = [] then call (Fprop X) (fprop m X) w
          else call (DropoutFprop X kw) (dropout_fprop m X kw) w)"
  by (cases "dropout_args (self w)") (simp_all add: compute_Y_hat_def config_def)

lemma compute_Y_hat_calls:
  "calls (snd (compute_Y_hat m X w)) = calls w @ [forward_event (config w) X]"
  by (cases "config w")
    (simp_all add: compute_Y_hat_config forward_event_def call_def split: prod.splits)

lemma after_forward_calls:
  "\<exists>rest. calls (snd (bind (call (CostMatrix Y Y_hat) (cost_matrix m Y Y_hat)) (\<lambda>costMatrix.
         call (CostFromCostMatrix (mul costMatrix (neq Y (Finite (- 1)))))
           (cost_from_cost_matrix m (mul costMatrix (neq Y (Finite (- 1)))))) u))
      = calls u @ rest \<and> filter is_forward rest = []"
  by (auto simp: bind_def call_def split: prod.splits sum.splits)

text \<open>On a batch that the space accepts, the log grows by one forward pass and then by
  calls that are not forward passes.\<close>

lemma expr_calls:
  assumes "get_data_specs m w = (Inr (space, sources), w1)" and "validate space [X, Y]"
  shows "\<exists>rest. calls (snd (expr m [X, Y] w)) = calls w1 @ forward_event (config w1) X # rest
     \<and> filter is_forward rest = []"
proof -
  obtain r w2 where f: "compute_Y_hat m X w1 = (r, w2)" by (cases "compute_Y_hat m X w1")
  have w2: "calls w2 = calls w1 @ [forward_event (config w1) X]"
    using compute_Y_hat_calls [of m X w1] f by simp
  show ?thesis
  proof (cases r)
    case (Inl e)
    then have "expr m [X, Y] w = (Inl e, w2)"
      using assms f by (simp add: expr_valid bind_def)
    then show ?thesis using w2 by simp
  next
    case (Inr Y_hat)
    then have "expr m [X, Y] w =
        bind (call (CostMatrix Y Y_hat) (cost_matrix m Y Y_hat)) (\<lambda>costMatrix.
         call (CostFromCostMatrix (mul costMatrix (neq Y (Finite (- 1)))))
           (cost_from_cost_matrix m (mul costMatrix (neq Y (Finite (- 1)))))) w2"
      using assms f by (simp add: expr_valid bind_Inr)
    then show ?thesis
      using after_forward_calls [of Y Y_hat m w2] w2 by auto
  qed
qed

subsection \<open>Runs that keep the configuration\<close>

lemma keeps_return: "keeps c (return a)"
  by (simp add: keeps_def return_def)

lemma keeps_raise: "keeps c (raise e)"
  by (simp add: keeps_def raise_def)

lemma keeps_call:
  assumes "\<And>a. dropout_args c = Some a \<Longrightarrow> leaves a f"
  shows "keeps c (call ev f)"
  unfolding keeps_def
proof (intro allI impI)
  fix v :: "'a world"
  assume v: "self v = c"
  obtain r s' where f: "f (mstate v) = (r, s')" by (cases "f (mstate v)")
  have "heap s' a = heap (mstate v) a" if "dropout_args c = Some a" for a
  proof -
    have "heap (snd (f (mstate v))) a = heap (mstate v) a"
      using assms [OF that] unfolding leaves_def by (rule spec)
    then show ?thesis using f by simp
  qed
  then show "self (snd (call ev f v)) = c \<and> config (snd (call ev f v)) = config v"
    using v f by (cases "dropout_args c") (simp_all add: call_def config_def)
qed

lemma keeps_bind:
  assumes "keeps c r" and "\<And>a. keeps c (f a)"
  shows "keeps c (bind r f)"
  unfolding keeps_def
proof (intro allI impI)
  fix v :: "'a world"
  assume v: "self v = c"
  obtain x u where ru: "r v = (x, u)" by (cases "r v")
  have u: "self u = c" "config u = config v"
    using assms(1) [unfolded keeps_def, rule_format, of v] v ru by simp_all
  show "self (snd (bind r f v)) = c \<and> config (snd (bind r f v)) = config v"
  proof (cases x)
    case (Inl e)
    then show ?thesis using ru u by (simp add: bind_def)
  next
    case (Inr a)
    then show ?thesis
      using ru u assms(2) [of a, unfolded keeps_def, rule_format, of u] by (simp add: bind_def)
  qed
qed

lemma keeps_get_data_specs:
  assumes "leaves_config m c"
  shows "keeps c (get_data_specs m)"
  unfolding get_data_specs_def
  using assms
  by (intro keeps_bind keeps_call keeps_return) (simp_all add: leaves_config_def)

lemma keeps_compute_Y_hat:
  assumes "leaves_config m c"
  shows "keeps c (compute_Y_hat m X)"
  unfolding keeps_def
proof (intro allI impI)
  fix v :: "'a world"
  assume v: "self v = c"
  have f: "keeps c (call (Fprop X) (fprop m X))"
    using assms by (intro keeps_call) (simp add: leaves_config_def)
  have d: "keeps c (call (DropoutFprop X kw) (dropout_fprop m X kw))" for kw
    using assms by (intro keeps_call) (simp add: leaves_config_def)
  show "self (snd (compute_Y_hat m X v)) = c
      \<and> config (snd (compute_Y_hat m X v)) = config v"
    using v f d by (simp add: compute_Y_hat_config keeps_def split: option.splits)
qed

lemma keeps_expr:
  assumes "leaves_config m c"
  shows "keeps c (expr m data)"
proof -
  have tail: "keeps c (bind (compute_Y_hat m X) (\<lambda>Y_hat.
         bind (call (CostMatrix Y Y_hat) (cost_matrix m Y Y_hat)) (\<lambda>costMatrix.
         call (CostFromCostMatrix (mul costMatrix (neq Y (Finite (- 1)))))
           (cost_from_cost_matrix m (mul costMatrix (neq Y (Finite (- 1))))))))" for X Y
    using assms
    by (intro keeps_bind keeps_compute_Y_hat keeps_call) (simp_all add: leaves_config_def)
  show ?thesis
    unfolding expr_def
  proof (rule keeps_bind [OF keeps_get_data_specs [OF assms]])
    fix a :: "space \<times> string \<times> string"
    obtain space sources where a: "a = (space, sources)" by (cases a)
    show "keeps c (case a of (space, sources) \<Rightarrow>
          if \<not> validate space data then raise DataSpecMismatch
          else case data of
            [X, Y] \<Rightarrow>
              bind (compute_Y_hat m X) (\<lambda>Y_hat.
              bind (call (CostMatrix Y Y_hat) (cost_matrix m Y Y_hat)) (\<lambda>costMatrix.
              call (CostFromCostMatrix (mul costMatrix (neq Y (Finite (- 1)))))
                (cost_from_cost_matrix m (mul costMatrix (neq Y (Finite (- 1)))))))
          | _ \<Rightarrow> raise UnpackError)"
      using tail by (simp add: a keeps_raise split: list.splits)
  qed
qed

subsection \<open>Deterministic models\<close>

lemma same_result_return: "same_result c (return a)"
  by (simp add: same_result_def return_def)

lemma same_result_raise: "same_result c (raise e)"
  by (simp add: same_result_def raise_def)

lemma same_result_call:
  assumes "\<And>s s'. fst (f s) = fst (f s')"
  shows "same_result c (call ev f)"
  unfolding same_result_def
proof (intro allI impI)
  fix v v' :: "'a world"
  show "fst (call ev f v) = fst (call ev f v')"
    using assms [of "mstate v" "mstate v'"] by (simp add: call_fst)
qed

lemma same_result_bind:
  assumes "keeps c r" and "same_result c r" and "\<And>a. same_result c (f a)"
  shows "same_result c (bind r f)"
  unfolding same_result_def
proof (intro allI impI)
  fix v v' :: "'a world"
  assume vv: "self v = c \<and> self v' = c \<and> config v = config v'"
  obtain x u where ru: "r v = (x, u)" by (cases "r v")
  obtain x' u' where ru': "r v' = (x', u')" by (cases "r v'")
  have "fst (r v) = fst (r v')"
    using assms(2) [unfolded same_result_def, rule_format, of v v'] vv by simp
  then have xx: "x' = x"
    using ru ru' by simp
  have u: "self u = c" "config u = config v"
    using assms(1) [unfolded keeps_def, rule_format, of v] vv ru by simp_all
  have u': "self u' = c" "config u' = config v'"
    using assms(1) [unfolded keeps_def, rule_format, of v'] vv ru' by simp_all
  show "fst (bind r f v) = fst (bind r f v')"
  proof (cases x)
    case (Inl e)
    then show ?thesis using ru ru' xx by (simp add: bind_def)
  next
    case (Inr a)
    have "fst (f a u) = fst (f a u')"
      using assms(3) [of a, unfolded same_result_def, rule_format, of u u'] u u' vv by simp
    then show ?thesis using Inr ru ru' xx by (simp add: bind_def)
  qed
qed

lemma same_result_get_data_specs:
  assumes "deterministic m" and "leaves_config m c"
  shows "same_result c (get_data_specs m)"
proof -
  have d: "\<And>s s'. fst (get_input_space m s) = fst (get_input_space m s')"
      "\<And>s s'. fst (get_output_space m s) = fst (get_output_space m s')"
      "\<And>s s'. fst (get_input_source m s) = fst (get_input_source m s')"
      "\<And>s s'. fst (get_target_source m s) = fst (get_target_source m s')"
    using assms(1) by (simp_all add: deterministic_def)
  have l: "\<And>a. dropout_args c = Some a \<Longrightarrow> leaves a (get_input_space m)"
      "\<And>a. dropout_args c = Some a \<Longrightarrow> leaves a (get_output_space m)"
      "\<And>a. dropout_args c = Some a \<Longrightarrow> leaves a (get_input_source m)"
      "\<And>a. dropout_args c = Some a \<Longrightarrow> leaves a (get_target_source m)"
    using assms(2) by (simp_all add: leaves_config_def)
  show ?thesis
    unfolding get_data_specs_def
    by (intro same_result_bind same_result_call same_result_return keeps_call d l)
qed

lemma same_result_compute_Y_hat:
  assumes "deterministic m"
  shows "same_result c (compute_Y_hat m X)"
  unfolding same_result_def
proof (intro allI impI)
  fix v v' :: "'a world"
  assume "self v = c \<and> self v' = c \<and> config v = config v'"
  then have c: "config v' = config v" by simp
  have f: "fst (fprop m X (mstate v)) = fst (fprop m X (mstate v'))"
    using assms by (simp add: deterministic_def)
  have d: "fst (dropout_fprop m X kw (mstate v)) = fst (dropout_fprop m X kw (mstate v'))" for kw
    using assms by (simp add: deterministic_def)
  show "fst (compute_Y_hat m X v) = fst (compute_Y_hat m X v')"
    using f d by (simp add: compute_Y_hat_config c call_fst split: option.splits)
qed

lemma same_result_expr:
  assumes det: "deterministic m" and l: "leaves_config m c"
  shows "same_result c (expr m data)"
proof -
  have c: "\<And>Y Y_hat s s'. fst (cost_matrix m Y Y_hat s) = fst (cost_matrix m Y Y_hat s')"
      "\<And>P s s'. fst (cost_from_cost_matrix m P s) = fst (cost_from_cost_matrix m P s')"
    using det by (simp_all add: deterministic_def)
  have k: "\<And>Y Y_hat a. dropout_args c = Some a \<Longrightarrow> leaves a (cost_matrix m Y Y_hat)"
    using l by (simp add: leaves_config_def)
  have tail: "same_result c (bind (compute_Y_hat m X) (\<lambda>Y_hat.
         bind (call (CostMatrix Y Y_hat) (cost_matrix m Y Y_hat)) (\<lambda>costMatrix.
         call (CostFromCostMatrix (mul costMatrix (neq Y (Finite (- 1)))))
           (cost_from_cost_matrix m (mul costMatrix (neq Y (Finite (- 1))))))))" for X Y
    by (intro same_result_bind same_result_call same_result_compute_Y_hat det
        keeps_compute_Y_hat l keeps_call c k)
  show ?thesis
    unfolding expr_def
  proof (rule same_result_bind
      [OF keeps_get_data_specs [OF l] same_result_get_data_specs [OF det l]])
    fix a :: "space \<times> string \<times> string"
    obtain space sources where a: "a = (space, sources)" by (cases a)
    show "same_result c (case a of (space, sources) \<Rightarrow>
          if \<not> validate space data then raise DataSpecMismatch
          else case data of
            [X, Y] \<Rightarrow>
              bind (compute_Y_hat m X) (\<lambda>Y_hat.
              bind (call (CostMatrix Y Y_hat) (cost_matrix m Y Y_hat)) (\<lambda>costMatrix.
              call (CostFromCostMatrix (mul costMatrix (neq Y (Finite (- 1)))))
                (cost_from_cost_matrix m (mul costMatrix (neq Y (Finite (- 1)))))))
          | _ \<Rightarrow> raise UnpackError)"
      using tail by (simp add: a same_result_raise split: list.splits)
  qed
qed

subsection \<open>The test doubles at work\<close>

lemmas run_defs =
  expr_def compute_Y_hat_def get_data_specs_def bind_def call_def return_def raise_def

lemmas tensor_defs =
  mul_def broadcast_def neq_def well_formed_def

lemma upt_4: "[0..<4] = [0, 1, 2, 3]"
  by (simp add: upt_rec)

lemma stub_specs:
  "get_data_specs stub_model \<lparr>self = c, mstate = \<lparr>vars = 0, heap = h\<rparr>, calls = []\<rparr> =
     (Inr (CompositeSpace [vector_space 3, vector_space 2], (''features'', ''targets'')),
      \<lparr>self = c, mstate = \<lparr>vars = 4, heap = h\<rparr>,
       calls = [GetInputSpace, GetOutputSpace, GetInputSource, GetTargetSource]\<rparr>)"
  by (simp add: get_data_specs_def bind_def call_def return_def stub_model_def tick_def)

lemma stub_valid:
  "validate (CompositeSpace [vector_space 3, vector_space 2])
     [X0, \<lparr>shape = [2, 2], elems = ys\<rparr>]"
  by (simp add: vector_space_def X0_def)




text \<open>The products of the cost matrices of the test doubles with the masks.\<close>

lemma masked_stub:
  "mul stub_Y_hat (neq Y0 (Finite (- 1))) =
     Inr \<lparr>shape = [2, 2], elems = [Finite 0.5, Finite 0, Finite 0, Finite 0.2]\<rparr>"
  by (simp add: tensor_defs stub_Y_hat_def Y0_def upt_4)

lemma masked_doubled:
  "mul (stub_Y_hat\<lparr>elems := map (fmul (Finite 2)) (elems stub_Y_hat)\<rparr>) (neq Y0 (Finite (- 1))) =
     Inr \<lparr>shape = [2, 2], elems = [Finite 1, Finite 0, Finite 0, Finite 0.4]\<rparr>"
  by (simp add: tensor_defs stub_Y_hat_def Y0_def upt_4)

lemma masked_inf:
  "mul inf_cost (neq Y0 (Finite (- 1))) =
     Inr \<lparr>shape = [2, 2], elems = [Finite 0.5, NaN, Finite 0, Finite 0.2]\<rparr>"
  by (simp add: tensor_defs inf_cost_def Y0_def upt_4)

lemma masked_inf_none:
  "mul inf_cost (neq Y_none (Finite (- 1))) =
     Inr \<lparr>shape = [2, 2], elems = [Finite 0, NaN, Finite 0, Finite 0]\<rparr>"
  by (simp add: tensor_defs inf_cost_def Y_none_def upt_4)


text \<open>The runs of the test doubles, from the world at its start.\<close>

lemma run_stub:
  "expr stub_model [X0, Y0] (world0 None h) =
     (Inr (Finite 0.7),
      \<lparr>self = init None, mstate = \<lparr>vars = 7, heap = h\<rparr>,
       calls = [GetInputSpace, GetOutputSpace, GetInputSource, GetTargetSource,
                Fprop X0, CostMatrix Y0 stub_Y_hat,
                CostFromCostMatrix
                  (Inr \<lparr>shape = [2, 2], elems = [Finite 0.5, Finite 0, Finite 0, Finite 0.2]\<rparr>)]\<rparr>)"
proof -
  have "validate (CompositeSpace [vector_space 3, vector_space 2]) [X0, Y0]"
    unfolding Y0_def by (rule stub_valid)
  then show ?thesis
    by (simp add: run_defs stub_model_def world0_def init_def tick_def masked_stub total_def)
qed

section \<open>The claims\<close>

text \<open>
  C1. The claim: on an accepted batch \<open>(X, Y)\<close>, \<^verbatim>\<open>expr\<close> returns the model's
  reduction of the elementwise product of the model's cost matrix with the mask
  \<open>Y \<noteq> -1\<close>, and every entry at a position where \<open>Y\<close> is \<open>-1\<close> contributes
  exactly zero; the comment on line 28 says the same. The code hands the product to
  the reduction, but the product does not set an infinite cost to zero: with a last
  layer whose cost is infinite at a missing position, the entry of the product at that
  position is nan, and so is the loss.
\<close>

theorem masked_infinite_cost_is_nan:
  "elems Y0 ! 1 = Finite (- 1)
   \<and> elems inf_cost ! 1 = PosInf
   \<and> expr inf_cost_model [X0, Y0] (world0 None empty_heap) =
       (Inr NaN,
        \<lparr>self = init None, mstate = \<lparr>vars = 7, heap = empty_heap\<rparr>,
         calls = [GetInputSpace, GetOutputSpace, GetInputSource, GetTargetSource,
                  Fprop X0, CostMatrix Y0 stub_Y_hat,
                  CostFromCostMatrix
                    (Inr \<lparr>shape = [2, 2],
                          elems = [Finite 0.5, NaN, Finite 0, Finite 0.2]\<rparr>)]\<rparr>)"
proof -
  have "validate (CompositeSpace [vector_space 3, vector_space 2]) [X0, Y0]"
    unfolding Y0_def by (rule stub_valid)
  then have "expr inf_cost_model [X0, Y0] (world0 None empty_heap) =
       (Inr NaN,
        \<lparr>self = init None, mstate = \<lparr>vars = 7, heap = empty_heap\<rparr>,
         calls = [GetInputSpace, GetOutputSpace, GetInputSource, GetTargetSource,
                  Fprop X0, CostMatrix Y0 stub_Y_hat,
                  CostFromCostMatrix
                    (Inr \<lparr>shape = [2, 2],
                          elems = [Finite 0.5, NaN, Finite 0, Finite 0.2]\<rparr>)]\<rparr>)"
    by (simp add: run_defs inf_cost_model_def stub_model_def world0_def init_def tick_def
        masked_inf total_def)
  then show ?thesis
    by (simp add: Y0_def inf_cost_def)
qed

text \<open>
  C5. The claim: on an accepted batch whose target has every entry equal to \<open>-1\<close>,
  the masked cost matrix is the zero matrix and \<^verbatim>\<open>expr\<close> returns the model's
  reduction of the zero matrix. The code: with a last layer whose cost is infinite at
  one position, the masked cost matrix has a nan at that position and the loss is nan,
  where the reduction of the zero matrix is zero.
\<close>

theorem all_missing_infinite_cost_is_nan:
  "set (elems Y_none) = {Finite (- 1)}
   \<and> mul inf_cost (neq Y_none (Finite (- 1))) =
       Inr \<lparr>shape = [2, 2], elems = [Finite 0, NaN, Finite 0, Finite 0]\<rparr>
   \<and> fst (expr inf_cost_model [X0, Y_none] (world0 None empty_heap)) = Inr NaN
   \<and> fst (cost_from_cost_matrix inf_cost_model (Inr (zero_matrix inf_cost))
            \<lparr>vars = 6, heap = empty_heap\<rparr>) = Inr (Finite 0)"
proof -
  have "validate (CompositeSpace [vector_space 3, vector_space 2]) [X0, Y_none]"
    unfolding Y_none_def by (rule stub_valid)
  then have "fst (expr inf_cost_model [X0, Y_none] (world0 None empty_heap)) = Inr NaN"
    by (simp add: run_defs inf_cost_model_def stub_model_def world0_def init_def tick_def
        masked_inf_none total_def)
  moreover have "fst (cost_from_cost_matrix inf_cost_model (Inr (zero_matrix inf_cost))
      \<lparr>vars = 6, heap = empty_heap\<rparr>) = Inr (Finite 0)"
    by (simp add: inf_cost_model_def stub_model_def zero_matrix_def inf_cost_def total_def)
  ultimately show ?thesis
    by (simp add: masked_inf_none) (simp add: Y_none_def)
qed




text \<open>
  C2 (as stated: a supplied dropout configuration routes the forward pass through
  \<^verbatim>\<open>dropout_fprop\<close>). The statement fails for a supplied configuration that is empty:
  the test is the truth value of the stored dictionary. What holds: on an accepted
  batch \<open>(X, Y)\<close> the prediction is computed by exactly one forward pass; it is
  \<^verbatim>\<open>dropout_fprop\<close> on \<open>X\<close> with the keyword arguments of the stored dictionary,
  unchanged, when a configuration was supplied and is not empty, and \<^verbatim>\<open>fprop\<close> on
  \<open>X\<close> when none was supplied or the stored one is empty. The dictionary is read
  when the test is made; it is then as it was at the start of the call when the model
  leaves it alone.
\<close>

theorem expr_forward_routing:
  assumes "get_data_specs m w = (Inr (space, sources), w1)"
    and "validate space [X, Y]"
  shows "compute_Y_hat m X w1 =
      (case config w1 of
         None \<Rightarrow> call (Fprop X) (fprop m X) w1
       | Some kw \<Rightarrow>
           if kw = [] then call (Fprop X) (fprop m X) w1
           else call (DropoutFprop X kw) (dropout_fprop m X kw) w1)
    \<and> (\<exists>rest. calls (snd (expr m [X, Y] w)) =
          calls w1 @
          (case config w1 of
             None \<Rightarrow> Fprop X
           | Some kw \<Rightarrow> if kw = [] then Fprop X else DropoutFprop X kw) # rest
        \<and> filter is_forward rest = [])
    \<and> (leaves_config m (self w) \<longrightarrow> config w1 = config w)"
proof -
  have "leaves_config m (self w) \<longrightarrow> config w1 = config w"
  proof
    assume "leaves_config m (self w)"
    then have "keeps (self w) (get_data_specs m)"
      by (rule keeps_get_data_specs)
    then show "config w1 = config w"
      using assms(1) by (auto simp: keeps_def dest!: spec [of _ w])
  qed
  then show ?thesis
    using expr_calls [OF assms] by (simp add: compute_Y_hat_config forward_event_def)
qed

theorem expr_forward_routing_witness:
  "config (world0 (Some 0) config_heap) = Some [(''default_input_include_prob'', Num 0.8)]
   \<and> calls (snd (expr stub_model [X0, Y0] (world0 (Some 0) config_heap))) =
     [GetInputSpace, GetOutputSpace, GetInputSource, GetTargetSource,
      DropoutFprop X0 [(''default_input_include_prob'', Num 0.8)],
      CostMatrix Y0 (stub_Y_hat\<lparr>elems := map (fmul (Finite 2)) (elems stub_Y_hat)\<rparr>),
      CostFromCostMatrix
        (Inr \<lparr>shape = [2, 2], elems = [Finite 1, Finite 0, Finite 0, Finite 0.4]\<rparr>)]
   \<and> calls (snd (expr stub_model [X0, Y0] (world0 None config_heap))) =
     [GetInputSpace, GetOutputSpace, GetInputSource, GetTargetSource,
      Fprop X0, CostMatrix Y0 stub_Y_hat,
      CostFromCostMatrix
        (Inr \<lparr>shape = [2, 2], elems = [Finite 0.5, Finite 0, Finite 0, Finite 0.2]\<rparr>)]"
proof -
  have valid: "validate (CompositeSpace [vector_space 3, vector_space 2]) [X0, Y0]"
    unfolding Y0_def by (rule stub_valid)
  let ?kw = "[(''default_input_include_prob'', Num 0.8)]"
  have cfg: "config \<lparr>self = init (Some 0), mstate = \<lparr>vars = 4, heap = config_heap\<rparr>,
      calls = [GetInputSpace, GetOutputSpace, GetInputSource, GetTargetSource]\<rparr> = Some ?kw"
    by (simp add: config_def init_def config_heap_def)
  obtain rest where
    "calls (snd (expr stub_model [X0, Y0]
        \<lparr>self = init (Some 0), mstate = \<lparr>vars = 0, heap = config_heap\<rparr>, calls = []\<rparr>)) =
       [GetInputSpace, GetOutputSpace, GetInputSource, GetTargetSource] @
       DropoutFprop X0 ?kw # rest"
    using expr_forward_routing [OF stub_specs valid, of "init (Some 0)" config_heap]
    by (auto simp: cfg)
  moreover have
    "calls (snd (expr stub_model [X0, Y0]
        \<lparr>self = init (Some 0), mstate = \<lparr>vars = 0, heap = config_heap\<rparr>, calls = []\<rparr>)) =
       [GetInputSpace, GetOutputSpace, GetInputSource, GetTargetSource] @
       DropoutFprop X0 ?kw #
       [CostMatrix Y0 (stub_Y_hat\<lparr>elems := map (fmul (Finite 2)) (elems stub_Y_hat)\<rparr>),
        CostFromCostMatrix
          (Inr \<lparr>shape = [2, 2], elems = [Finite 1, Finite 0, Finite 0, Finite 0.4]\<rparr>)]"
    using valid
    by (simp add: run_defs stub_model_def init_def tick_def masked_doubled config_heap_def)
  moreover have "config (world0 (Some 0) config_heap) = Some ?kw"
    by (simp add: config_def world0_def init_def config_heap_def)
  ultimately show ?thesis
    by (simp add: world0_def run_stub [unfolded world0_def])
qed

text \<open>A cost built with an empty dictionary: the configuration is supplied, and the
  only forward pass in the log is the standard one.\<close>

theorem supplied_empty_uses_fprop:
  "dropout_args (self (world0 (Some 0) empty_heap)) = Some 0
   \<and> config (world0 (Some 0) empty_heap) = Some []
   \<and> calls (snd (expr stub_model [X0, Y0] (world0 (Some 0) empty_heap))) =
     [GetInputSpace, GetOutputSpace, GetInputSource, GetTargetSource,
      Fprop X0, CostMatrix Y0 stub_Y_hat,
      CostFromCostMatrix
        (Inr \<lparr>shape = [2, 2], elems = [Finite 0.5, Finite 0, Finite 0, Finite 0.2]\<rparr>)]
   \<and> fst (expr stub_model [X0, Y0] (world0 (Some 0) empty_heap)) = Inr (Finite 0.7)"
proof -
  have "validate (CompositeSpace [vector_space 3, vector_space 2]) [X0, Y0]"
    unfolding Y0_def by (rule stub_valid)
  then show ?thesis
    by (simp add: run_defs stub_model_def world0_def init_def tick_def masked_stub total_def
        config_def empty_heap_def)
qed



text \<open>
  C3 (as stated: a batch whose shape or sources do not match makes \<^verbatim>\<open>expr\<close> raise
  before any forward pass). The statement fails for the sources: \<^verbatim>\<open>expr\<close> computes
  the pair of sources and never compares it with anything, and the batch it receives
  carries no sources. What holds: on a batch that the composite space rejects,
  \<^verbatim>\<open>expr\<close> raises the validation error right after \<^verbatim>\<open>get_data_specs\<close>; the model
  has then received the four calls of \<^verbatim>\<open>get_data_specs\<close> and no forward pass.
\<close>

theorem expr_rejected_batch:
  assumes "get_data_specs m w = (Inr (space, sources), w1)"
    and "\<not> validate space data"
  shows "expr m data w = (Inl DataSpecMismatch, w1)
    \<and> calls w1 = calls w @ [GetInputSpace, GetOutputSpace, GetInputSource, GetTargetSource]
    \<and> filter is_forward (calls w1) = filter is_forward (calls w)"
proof -
  have "expr m data w = (Inl DataSpecMismatch, w1)"
    using assms by (simp add: expr_def bind_def raise_def)
  moreover have "calls w1 = calls w @ [GetInputSpace, GetOutputSpace, GetInputSource, GetTargetSource]"
    using assms(1) by (rule get_data_specs_Inr(2))
  ultimately show ?thesis by simp
qed

theorem expr_rejected_batch_witness:
  "\<not> validate (CompositeSpace [vector_space 3, vector_space 2]) [X0, X0]
   \<and> expr stub_model [X0, X0] (world0 None empty_heap) =
       (Inl DataSpecMismatch,
        \<lparr>self = init None, mstate = \<lparr>vars = 4, heap = empty_heap\<rparr>,
         calls = [GetInputSpace, GetOutputSpace, GetInputSource, GetTargetSource]\<rparr>)
   \<and> \<not> validate (CompositeSpace [vector_space 3, vector_space 2]) [X0, Y0, Y0]"
proof -
  have invalid: "\<not> validate (CompositeSpace [vector_space 3, vector_space 2]) [X0, X0]"
    by (simp add: vector_space_def X0_def)
  have "\<not> validate (CompositeSpace [vector_space 3, vector_space 2]) [X0, Y0, Y0]"
    by simp
  then show ?thesis
    using invalid expr_rejected_batch [OF stub_specs invalid, of "init None" empty_heap]
    by (simp add: world0_def)
qed

text \<open>The batch drawn from the sources in the wrong order does not match the data
  specification of the stub model; \<^verbatim>\<open>expr\<close> on its tensors runs the forward pass
  and returns a loss.\<close>

theorem sources_are_not_checked:
  "fst (get_data_specs stub_model (world0 None empty_heap)) =
     Inr (CompositeSpace [vector_space 3, vector_space 2], (''features'', ''targets''))
   \<and> \<not> matches_data_specs
         (CompositeSpace [vector_space 3, vector_space 2], (''features'', ''targets''))
         swapped_batch
   \<and> fst (expr stub_model (components swapped_batch) (world0 None empty_heap))
       = Inr (Finite 0.7)
   \<and> filter is_forward
         (calls (snd (expr stub_model (components swapped_batch) (world0 None empty_heap))))
       = [Fprop X0]"
  by (simp add: run_stub swapped_batch_def matches_data_specs_def)
    (simp add: world0_def stub_specs)

text \<open>
  C6. \<^verbatim>\<open>get_data_specs\<close> returns the composite space of the model's input space
  followed by its output space, paired with the pair of the model's input source and
  target source. It does nothing but call the model's four accessors, in this order:
  when they return, it returns, the cost object is as before and the store is what
  the accessors left.
\<close>

theorem get_data_specs_returns:
  assumes "get_input_space m (mstate w) = (Inr ispace, s1)"
    and "get_output_space m s1 = (Inr ospace, s2)"
    and "get_input_source m s2 = (Inr isource, s3)"
    and "get_target_source m s3 = (Inr tsource, s4)"
  shows "get_data_specs m w =
     (Inr (CompositeSpace [ispace, ospace], (isource, tsource)),
      w\<lparr>mstate := s4,
        calls := calls w @ [GetInputSpace, GetOutputSpace, GetInputSource, GetTargetSource]\<rparr>)"
  using assms by (simp add: get_data_specs_def bind_def call_def return_def)

theorem get_data_specs_returns_witness:
  "get_data_specs stub_model (world0 (Some 0) config_heap) =
     (Inr (CompositeSpace [vector_space 3, vector_space 2], (''features'', ''targets'')),
      \<lparr>self = init (Some 0), mstate = \<lparr>vars = 4, heap = config_heap\<rparr>,
       calls = [GetInputSpace, GetOutputSpace, GetInputSource, GetTargetSource]\<rparr>)"
proof -
  have a: "get_input_space stub_model (mstate (world0 (Some 0) config_heap))
      = (Inr (vector_space 3), \<lparr>vars = 1, heap = config_heap\<rparr>)"
    by (simp add: stub_model_def world0_def tick_def)
  have b: "get_output_space stub_model \<lparr>vars = 1, heap = config_heap\<rparr>
      = (Inr (vector_space 2), \<lparr>vars = 2, heap = config_heap\<rparr>)"
    by (simp add: stub_model_def tick_def)
  have c: "get_input_source stub_model \<lparr>vars = 2, heap = config_heap\<rparr>
      = (Inr ''features'', \<lparr>vars = 3, heap = config_heap\<rparr>)"
    by (simp add: stub_model_def tick_def)
  have d: "get_target_source stub_model \<lparr>vars = 3, heap = config_heap\<rparr>
      = (Inr ''targets'', \<lparr>vars = 4, heap = config_heap\<rparr>)"
    by (simp add: stub_model_def tick_def)
  show ?thesis
    using get_data_specs_returns [OF a b c d] by (simp add: world0_def)
qed

text \<open>
  C7. An exception raised by the model's forward pass, by its dropout forward pass or
  by the cost matrix of its last layer is the exception that \<^verbatim>\<open>expr\<close> raises, in
  the world the raising call left: nothing is caught, wrapped or called again.
\<close>

theorem expr_propagates:
  assumes "get_data_specs m w = (Inr (space, sources), w1)"
    and "validate space [X, Y]"
    and "(config w1 \<in> {None, Some []}
           \<and> call (Fprop X) (fprop m X) w1 = (Inl e, w'))
       \<or> (\<exists>kw. config w1 = Some kw \<and> kw \<noteq> []
           \<and> call (DropoutFprop X kw) (dropout_fprop m X kw) w1 = (Inl e, w'))
       \<or> (\<exists>Y_hat w2. compute_Y_hat m X w1 = (Inr Y_hat, w2)
           \<and> call (CostMatrix Y Y_hat) (cost_matrix m Y Y_hat) w2 = (Inl e, w'))"
  shows "expr m [X, Y] w = (Inl e, w')"
proof -
  from assms(3) consider
      (fprop) "config w1 \<in> {None, Some []}"
        "call (Fprop X) (fprop m X) w1 = (Inl e, w')"
    | (dropout) kw where "config w1 = Some kw" "kw \<noteq> []"
        "call (DropoutFprop X kw) (dropout_fprop m X kw) w1 = (Inl e, w')"
    | (cost) Y_hat w2 where "compute_Y_hat m X w1 = (Inr Y_hat, w2)"
        "call (CostMatrix Y Y_hat) (cost_matrix m Y Y_hat) w2 = (Inl e, w')"
    by blast
  then show ?thesis
  proof cases
    case fprop
    then have "compute_Y_hat m X w1 = (Inl e, w')"
      by (auto simp: compute_Y_hat_config)
    then show ?thesis
      using assms(1,2) by (simp add: expr_valid bind_Inl)
  next
    case dropout
    then have "compute_Y_hat m X w1 = (Inl e, w')"
      by (simp add: compute_Y_hat_config)
    then show ?thesis
      using assms(1,2) by (simp add: expr_valid bind_Inl)
  next
    case cost
    then show ?thesis
      using assms(1,2) by (simp add: expr_valid bind_Inr bind_Inl)
  qed
qed

theorem expr_propagates_witness:
  "expr failing_fprop_model [X0, Y0] (world0 None empty_heap) =
     (Inl (Raised ''fprop failed''),
      \<lparr>self = init None, mstate = \<lparr>vars = 5, heap = empty_heap\<rparr>,
       calls = [GetInputSpace, GetOutputSpace, GetInputSource, GetTargetSource, Fprop X0]\<rparr>)
   \<and> expr failing_cost_model [X0, Y0] (world0 None empty_heap) =
     (Inl (Raised ''cost_matrix failed''),
      \<lparr>self = init None, mstate = \<lparr>vars = 6, heap = empty_heap\<rparr>,
       calls = [GetInputSpace, GetOutputSpace, GetInputSource, GetTargetSource, Fprop X0,
                CostMatrix Y0 stub_Y_hat]\<rparr>)"
proof -
  let ?w1 = "\<lparr>self = init None, mstate = \<lparr>vars = 4::nat, heap = empty_heap\<rparr>,
       calls = [GetInputSpace, GetOutputSpace, GetInputSource, GetTargetSource]\<rparr>"
  let ?w2 = "\<lparr>self = init None, mstate = \<lparr>vars = 5::nat, heap = empty_heap\<rparr>,
       calls = [GetInputSpace, GetOutputSpace, GetInputSource, GetTargetSource, Fprop X0]\<rparr>"
  let ?w3 = "\<lparr>self = init None, mstate = \<lparr>vars = 6::nat, heap = empty_heap\<rparr>,
       calls = [GetInputSpace, GetOutputSpace, GetInputSource, GetTargetSource, Fprop X0,
                CostMatrix Y0 stub_Y_hat]\<rparr>"
  have valid: "validate (CompositeSpace [vector_space 3, vector_space 2]) [X0, Y0]"
    unfolding Y0_def by (rule stub_valid)
  have specs: "get_data_specs failing_fprop_model (world0 None empty_heap) =
     (Inr (CompositeSpace [vector_space 3, vector_space 2], (''features'', ''targets'')), ?w1)"
    by (simp add: get_data_specs_def bind_def call_def return_def failing_fprop_model_def
        stub_model_def world0_def tick_def)
  have "config ?w1 \<in> {None, Some []}
      \<and> call (Fprop X0) (fprop failing_fprop_model X0) ?w1 = (Inl (Raised ''fprop failed''), ?w2)"
    by (simp add: call_def failing_fprop_model_def stub_model_def config_def init_def tick_def)
  then have forward:
    "expr failing_fprop_model [X0, Y0] (world0 None empty_heap)
      = (Inl (Raised ''fprop failed''), ?w2)"
    by (intro expr_propagates [OF specs valid] disjI1)
  have specs': "get_data_specs failing_cost_model (world0 None empty_heap) =
     (Inr (CompositeSpace [vector_space 3, vector_space 2], (''features'', ''targets'')), ?w1)"
    by (simp add: get_data_specs_def bind_def call_def return_def failing_cost_model_def
        stub_model_def world0_def tick_def)
  have "compute_Y_hat failing_cost_model X0 ?w1 = (Inr stub_Y_hat, ?w2)
      \<and> call (CostMatrix Y0 stub_Y_hat) (cost_matrix failing_cost_model Y0 stub_Y_hat) ?w2
          = (Inl (Raised ''cost_matrix failed''), ?w3)"
    by (simp add: compute_Y_hat_def call_def failing_cost_model_def stub_model_def init_def
        tick_def)
  then have "\<exists>Y_hat w2. compute_Y_hat failing_cost_model X0 ?w1 = (Inr Y_hat, w2)
      \<and> call (CostMatrix Y0 Y_hat) (cost_matrix failing_cost_model Y0 Y_hat) w2
          = (Inl (Raised ''cost_matrix failed''), ?w3)"
    by blast
  then have cost:
    "expr failing_cost_model [X0, Y0] (world0 None empty_heap)
      = (Inl (Raised ''cost_matrix failed''), ?w3)"
    by (intro expr_propagates [OF specs' valid] disjI2)
  show ?thesis
    using forward cost by simp
qed

text \<open>
  C8. For a deterministic model and a fixed dropout configuration, running \<^verbatim>\<open>expr\<close>
  on a batch and then running it again on the same batch, in the world the first run
  left, returns the same result.
\<close>

theorem expr_two_runs:
  assumes "deterministic m" and "leaves_config m (self w)"
  shows "fst (expr m data (snd (expr m data w))) = fst (expr m data w)"
proof -
  have k: "keeps (self w) (expr m data)"
    using assms(2) by (rule keeps_expr)
  have after: "self (snd (expr m data w)) = self w \<and> config (snd (expr m data w)) = config w"
    using k [unfolded keeps_def, rule_format, of w] by simp
  have "same_result (self w) (expr m data)"
    using assms by (rule same_result_expr)
  from this [unfolded same_result_def, rule_format, of "snd (expr m data w)" w]
  show ?thesis
    using after by simp
qed

theorem expr_two_runs_witness:
  "deterministic stub_model
   \<and> leaves_config stub_model (self (world0 (Some 0) config_heap))
   \<and> fst (expr stub_model [X0, Y0] (world0 (Some 0) config_heap)) = Inr (Finite 1.4)
   \<and> fst (expr stub_model [X0, Y0]
            (snd (expr stub_model [X0, Y0] (world0 (Some 0) config_heap)))) = Inr (Finite 1.4)
   \<and> vars (mstate (snd (expr stub_model [X0, Y0] (world0 (Some 0) config_heap)))) = 7"
proof -
  have det: "deterministic stub_model"
    by (simp add: deterministic_def stub_model_def)
  have fixed: "leaves_config stub_model (self (world0 (Some 0) config_heap))"
    by (simp add: leaves_config_def leaves_def stub_model_def world0_def init_def tick_def)
  have valid: "validate (CompositeSpace [vector_space 3, vector_space 2]) [X0, Y0]"
    unfolding Y0_def by (rule stub_valid)
  have "fst (expr stub_model [X0, Y0] (world0 (Some 0) config_heap)) = Inr (Finite 1.4)"
    and "vars (mstate (snd (expr stub_model [X0, Y0] (world0 (Some 0) config_heap)))) = 7"
    using valid
    by (simp_all add: run_defs stub_model_def world0_def init_def tick_def masked_doubled
        total_def config_heap_def)
  then show ?thesis
    using det fixed expr_two_runs [OF det fixed, of "[X0, Y0]"] by simp
qed

text \<open>
  C9 (as stated: after any call the state of the cost object equals its state at
  construction). The statement fails for the content of the configuration: the cost
  object holds the caller's dictionary, not a copy, and a model that holds it too can
  change it during a call. What holds: the cost object has the one attribute
  \<^verbatim>\<open>dropout_args\<close>, and neither \<^verbatim>\<open>expr\<close> nor \<^verbatim>\<open>get_data_specs\<close> assigns to it:
  after either call it refers to the dictionary it was built with, or to none; the
  content of that dictionary is as before the call when no method of the model
  changes it.
\<close>

theorem cost_object_kept:
  assumes "self w = init args"
  shows "self (snd (expr m data w)) = init args
    \<and> self (snd (get_data_specs m w)) = init args
    \<and> dropout_args (self (snd (expr m data w))) = args
    \<and> (leaves_config m (init args) \<longrightarrow>
         config (snd (expr m data w)) = config w
         \<and> config (snd (get_data_specs m w)) = config w)"
proof -
  have "config (snd (expr m data w)) = config w
      \<and> config (snd (get_data_specs m w)) = config w"
    if "leaves_config m (init args)"
    using keeps_expr [OF that, of data, unfolded keeps_def, rule_format, of w]
      keeps_get_data_specs [OF that, unfolded keeps_def, rule_format, of w] assms
    by simp
  then show ?thesis
    using assms by (simp add: expr_self get_data_specs_self init_def)
qed

theorem cost_object_kept_witness:
  "self (world0 (Some 0) config_heap) = init (Some 0)
   \<and> leaves_config stub_model (init (Some 0))
   \<and> self (snd (expr stub_model [X0, Y0] (world0 (Some 0) config_heap))) = init (Some 0)
   \<and> config (snd (expr stub_model [X0, Y0] (world0 (Some 0) config_heap)))
       = Some [(''default_input_include_prob'', Num 0.8)]"
proof -
  have c: "self (world0 (Some 0) config_heap) = init (Some 0)"
    by (simp add: world0_def)
  have fixed: "leaves_config stub_model (init (Some 0))"
    by (simp add: leaves_config_def leaves_def stub_model_def init_def tick_def)
  have "config (world0 (Some 0) config_heap) = Some [(''default_input_include_prob'', Num 0.8)]"
    by (simp add: config_def world0_def init_def config_heap_def)
  then show ?thesis
    using c fixed cost_object_kept [OF c, of stub_model "[X0, Y0]"] by simp
qed

text \<open>A model that holds the dictionary of the cost object and empties it in its
  dropout forward pass: the cost object refers to the same dictionary after the call,
  and the configuration it was built with is gone.\<close>

theorem shared_dictionary_is_changed:
  "config (world0 (Some 0) config_heap) = Some [(''default_input_include_prob'', Num 0.8)]
   \<and> self (snd (expr clearing_model [X0, Y0] (world0 (Some 0) config_heap))) = init (Some 0)
   \<and> config (snd (expr clearing_model [X0, Y0] (world0 (Some 0) config_heap))) = Some []"
proof -
  have "validate (CompositeSpace [vector_space 3, vector_space 2]) [X0, Y0]"
    unfolding Y0_def by (rule stub_valid)
  then show ?thesis
    by (simp add: run_defs clearing_model_def stub_model_def world0_def init_def tick_def
        config_def config_heap_def)
qed

end
